theory Spec2Isabelle
  imports Complex_Main
begin

section \<open>JavaScript values as the handlers see them\<close>

text \<open>
  A JavaScript number is an IEEE binary64 value. Finite values are kept as the rational
  they denote; the sign of zero is not kept (\<open>Fin 0\<close> stands for both zeros, which the
  code never tells apart: \<open>!0\<close> and \<open>!(-0)\<close> are both true). A number that arrives in a
  request is such a value already; what the code computes from it (\<open>amount * 1e9\<close>,
  \<open>balanceInLamports / 1e9\<close>) is the exact result rounded by \<open>round_double\<close>.
\<close>

datatype jsnum = Fin rat | NaN | PosInf | NegInf

function bit_len :: "int \<Rightarrow> nat" where
  "bit_len n = (if n \<le> 0 then 0 else Suc (bit_len (n div 2)))"
  by pat_completeness auto
termination
  by (relation "measure nat") auto

declare bit_len.simps [simp del]

definition pow2 :: "int \<Rightarrow> rat" where
  "pow2 e = (if 0 \<le> e then 2 ^ nat e else 1 / 2 ^ nat (- e))"

definition ilog2 :: "rat \<Rightarrow> int" where
  \<comment> \<open>for \<open>q > 0\<close>: the \<open>e\<close> with \<open>2^e \<le> q < 2^(e+1)\<close>\<close>
  "ilog2 q =
     (let (a, b) = quotient_of q;
          e0 = int (bit_len a) - int (bit_len b)
      in if pow2 e0 \<le> q then e0 else e0 - 1)"

definition round_half_even :: "rat \<Rightarrow> int" where
  "round_half_even q =
     (let f = \<lfloor>q\<rfloor>; d = q - of_int f
      in if d < 1 / 2 then f
         else if 1 / 2 < d then f + 1
         else if even f then f else f + 1)"

definition round_double :: "rat \<Rightarrow> jsnum" where
  \<comment> \<open>round to nearest binary64, ties to even; 53 significant bits, least exponent -1022\<close>
  "round_double q =
     (if q = 0 then Fin 0
      else let a = \<bar>q\<bar>;
               e = max (ilog2 a) (- 1022);
               ulp = pow2 (e - 52);
               r = of_int (round_half_even (a / ulp)) * ulp
           in if pow2 1024 \<le> r then (if 0 < q then PosInf else NegInf)
              else Fin (if 0 < q then r else - r))"

definition js_times_1e9 :: "jsnum \<Rightarrow> jsnum" where
  \<comment> \<open>\<open>x * 1e9\<close>\<close>
  "js_times_1e9 x = (case x of Fin a \<Rightarrow> round_double (a * 1000000000) | _ \<Rightarrow> x)"

definition js_div_1e9 :: "jsnum \<Rightarrow> jsnum" where
  \<comment> \<open>\<open>x / 1e9\<close>\<close>
  "js_div_1e9 x = (case x of Fin a \<Rightarrow> round_double (a / 1000000000) | _ \<Rightarrow> x)"

subsection \<open>Strings to numbers\<close>

definition pow10 :: "int \<Rightarrow> rat" where
  "pow10 e = (if 0 \<le> e then 10 ^ nat e else 1 / 10 ^ nat (- e))"

definition is_space :: "char \<Rightarrow> bool" where
  "is_space c = (of_char c \<in> {9, 10, 11, 12, 13, 32 :: nat})"

definition trim :: "string \<Rightarrow> string" where
  "trim s = rev (dropWhile is_space (rev (dropWhile is_space s)))"

definition digit_of :: "char \<Rightarrow> int" where
  \<comment> \<open>the value of a digit or letter, 36 for any other character\<close>
  "digit_of c =
     (let n = of_char c :: int
      in if 48 \<le> n \<and> n \<le> 57 then n - 48
         else if 97 \<le> n \<and> n \<le> 122 then n - 87
         else if 65 \<le> n \<and> n \<le> 90 then n - 55
         else 36)"

definition is_digit :: "char \<Rightarrow> bool" where
  "is_digit c = (digit_of c < 10)"

definition radix_value :: "int \<Rightarrow> string \<Rightarrow> int" where
  "radix_value b s = foldl (\<lambda>a c. a * b + digit_of c) 0 s"

definition radix_literal :: "int \<Rightarrow> string \<Rightarrow> jsnum" where
  "radix_literal b s =
     (if s \<noteq> [] \<and> list_all (\<lambda>c. digit_of c < b) s
      then round_double (of_int (radix_value b s)) else NaN)"

definition exponent_part :: "string \<Rightarrow> int option" where
  \<comment> \<open>nothing, or \<open>e\<close> or \<open>E\<close>, an optional sign and at least one digit\<close>
  "exponent_part s =
     (case s of
        [] \<Rightarrow> Some 0
      | c # t \<Rightarrow>
          if c = CHR ''e'' \<or> c = CHR ''E'' then
            (let (neg, ds) = (case t of
                   [] \<Rightarrow> (False, [])
                 | d # u \<Rightarrow> if d = CHR ''-'' then (True, u)
                            else if d = CHR ''+'' then (False, u) else (False, t))
             in if ds \<noteq> [] \<and> list_all is_digit ds
                then Some (if neg then - radix_value 10 ds else radix_value 10 ds)
                else None)
          else None)"

definition decimal_literal :: "string \<Rightarrow> rat option" where
  \<comment> \<open>digits, an optional point and digits (one of the two parts may be empty), an
      optional exponent\<close>
  "decimal_literal s =
     (let ip = takeWhile is_digit s;
          r1 = dropWhile is_digit s;
          (fp, r2) = (case r1 of
                 [] \<Rightarrow> ([], [])
               | c # t \<Rightarrow> if c = CHR ''.'' then (takeWhile is_digit t, dropWhile is_digit t)
                          else ([], r1))
      in if ip = [] \<and> fp = [] then None
         else (case exponent_part r2 of
                 None \<Rightarrow> None
               | Some e \<Rightarrow>
                   Some (of_int (radix_value 10 (ip @ fp)) * pow10 (e - int (length fp)))))"

definition string_to_number :: "string \<Rightarrow> jsnum" where
  \<comment> \<open>\<open>Number(s)\<close> for a string\<close>
  "string_to_number s =
     (let t = trim s
      in if t = [] then Fin 0
         else if take 2 t = ''0x'' \<or> take 2 t = ''0X'' then radix_literal 16 (drop 2 t)
         else if take 2 t = ''0o'' \<or> take 2 t = ''0O'' then radix_literal 8 (drop 2 t)
         else if take 2 t = ''0b'' \<or> take 2 t = ''0B'' then radix_literal 2 (drop 2 t)
         else
           (let neg = (take 1 t = ''-'');
                u = (if take 1 t = ''-'' \<or> take 1 t = ''+'' then drop 1 t else t)
            in if u = ''Infinity'' then (if neg then NegInf else PosInf)
               else (case decimal_literal u of
                       None \<Rightarrow> NaN
                     | Some q \<Rightarrow> round_double (if neg then - q else q))))"

subsection \<open>Numbers to strings\<close>

function dec :: "int \<Rightarrow> string" where
  "dec n = (if n < 10 then [char_of (48 + n)] else dec (n div 10) @ [char_of (48 + n mod 10)])"
  by pat_completeness auto
termination
  by (relation "measure nat") auto

declare dec.simps [simp del]

function shift10 :: "int \<Rightarrow> int \<Rightarrow> nat" where
  \<comment> \<open>how often \<open>a\<close> must be multiplied by 10 to reach \<open>b\<close>\<close>
  "shift10 a b = (if b \<le> a \<or> a \<le> 0 then 0 else Suc (shift10 (10 * a) b))"
  by pat_completeness auto
termination
  by (relation "measure (\<lambda>(a, b). nat (b - a))") auto

declare shift10.simps [simp del]

definition decimal_exponent :: "rat \<Rightarrow> int" where
  \<comment> \<open>for \<open>q > 0\<close>: the \<open>n\<close> with \<open>10^(n-1) \<le> q < 10^n\<close>\<close>
  "decimal_exponent q =
     (let (a, b) = quotient_of q
      in if b \<le> a then int (length (dec (a div b))) else 1 - int (shift10 a b))"

function shortest_digits :: "rat \<Rightarrow> int \<Rightarrow> nat \<Rightarrow> int \<times> int \<times> nat" where
  \<comment> \<open>the least \<open>k\<close> from the given one on, with \<open>s\<close> of \<open>k\<close> digits and \<open>n\<close>, such that
      \<open>s * 10^(n-k)\<close> rounds to \<open>q\<close>; of two such \<open>s\<close> the closer one, then the even one\<close>
  "shortest_digits q n k =
     (let scale = pow10 (n - int k);
          lo = \<lfloor>q / scale\<rfloor>;
          ok = (\<lambda>s. round_double (of_int s * scale) = Fin q);
          dl = q - of_int lo * scale;
          dh = of_int (lo + 1) * scale - q;
          pick = (if ok lo \<and> ok (lo + 1)
                  then (if dl < dh then lo else if dh < dl then lo + 1
                        else if even lo then lo else lo + 1)
                  else if ok lo then lo else lo + 1)
      in if ok lo \<or> ok (lo + 1) \<or> 17 \<le> k
         then (if pick = 10 ^ k then (10 ^ (k - 1), n + 1, k) else (pick, n, k))
         else shortest_digits q n (Suc k))"
  by pat_completeness auto
termination
  by (relation "measure (\<lambda>(q, n, k). 17 - k)") auto

declare shortest_digits.simps [simp del]

definition positive_to_string :: "rat \<Rightarrow> string" where
  "positive_to_string q =
     (let (s, n, k) = shortest_digits q (decimal_exponent q) 1;
          ds = dec s;
          e = n - 1
      in if int k \<le> n \<and> n \<le> 21 then ds @ replicate (nat (n - int k)) CHR ''0''
         else if 0 < n \<and> n \<le> 21 then take (nat n) ds @ ''.'' @ drop (nat n) ds
         else if - 6 < n \<and> n \<le> 0 then ''0.'' @ replicate (nat (- n)) CHR ''0'' @ ds
         else (if k = 1 then ds else take 1 ds @ ''.'' @ drop 1 ds)
              @ ''e'' @ (if 0 \<le> e then ''+'' else ''-'') @ dec \<bar>e\<bar>)"

definition number_to_string :: "jsnum \<Rightarrow> string" where
  \<comment> \<open>\<open>String(x)\<close> for a number\<close>
  "number_to_string x =
     (case x of
        NaN \<Rightarrow> ''NaN''
      | PosInf \<Rightarrow> ''Infinity''
      | NegInf \<Rightarrow> ''-Infinity''
      | Fin q \<Rightarrow> if q = 0 then ''0''
                 else if q < 0 then ''-'' @ positive_to_string (- q)
                 else positive_to_string q)"

text \<open>What \<open>express.json()\<close> puts into \<open>req.body\<close>, and \<open>undefined\<close> for an absent property.\<close>

datatype jsval =
    JUndefined
  | JNull
  | JBool bool
  | JNum jsnum
  | JStr string
  | JArr "jsval list"
  | JObj "(string \<times> jsval) list"

fun truthy :: "jsval \<Rightarrow> bool" where
  "truthy JUndefined = False"
| "truthy JNull = False"
| "truthy (JBool b) = b"
| "truthy (JNum n) = (n \<noteq> Fin 0 \<and> n \<noteq> NaN)"
| "truthy (JStr s) = (s \<noteq> [])"
| "truthy (JArr xs) = True"
| "truthy (JObj kvs) = True"

type_synonym pubkey = string

record keypair =
  publicKey :: pubkey
  secretKey :: "nat list"

record connection =
  endpoint :: string
  commitment :: "string option"

record instruction =
  fromPubkey :: pubkey
  toPubkey :: pubkey
  lamports :: jsnum

record transaction =
  instructions :: "instruction list"
  recentBlockhash :: "string option"
  feePayer :: "pubkey option"

section \<open>What the code runs against\<close>

text \<open>
  Everything outside the two source files that their code calls and that is not written
  out here: the process environment, the messages and limits of the JavaScript engine
  (the TypeError for iterating or reading a property of \<open>null\<close> and \<open>undefined\<close>, the
  RangeError for a typed array it cannot create), the constructors of \<open>@solana/web3.js\<close>,
  which throw on what they reject, and the answers of the RPC node. A thrown error is
  \<open>Inl\<close> of its message.
\<close>

record env =
  process_env :: "string \<rightharpoonup> string"
  not_iterable_error :: "jsval \<Rightarrow> string"
  typed_array_error :: "int \<Rightarrow> string option"
  property_error :: "jsval \<Rightarrow> string \<Rightarrow> string"
  fromSecretKey :: "nat list \<Rightarrow> string + pubkey"
  newPublicKey :: "jsval \<Rightarrow> string + pubkey"
  endpoint_error :: "string \<Rightarrow> string option"
  transfer_error :: "instruction \<Rightarrow> string option"
  rpc_getBalance :: "connection \<Rightarrow> pubkey \<Rightarrow> string + jsnum"
  rpc_getLatestBlockhash :: "connection \<Rightarrow> string + string"
  rpc_sendTransaction :: "connection \<Rightarrow> transaction \<Rightarrow> keypair list \<Rightarrow> string + string"
  rpc_confirmTransaction :: "connection \<Rightarrow> string \<Rightarrow> string \<Rightarrow> string + unit"

text \<open>
  The handlers imported from \<open>controllers/authControllers.js\<close>, a file that is not part of
  the sources at hand. Their behaviour is a parameter of the model.
\<close>

datatype controller =
    signup
  | login
  | logout
  | authenticateToken
  | checkBalance
  | sendTransaction
  | getTransactions
  | updateProfile
  | deleteProfile
  | getUserProfile
  | verifyToken
  | getTransactionHistory
  | deleteTransaction

text \<open>
  The trace of a request: every call of an imported controller, and every construction or
  use of a \<open>Connection\<close>, in the order the code performs them.
\<close>

datatype event =
    Call controller
  | NewConnection string "string option"
  | RpcGetBalance connection pubkey
  | RpcGetLatestBlockhash connection
  | RpcSendTransaction connection transaction "keypair list"
  | RpcConfirmTransaction connection string string

subsection \<open>Coercions\<close>

text \<open>
  Strings are taken to be ASCII, so that a character is a code point. An object holds its
  properties in the order of the JSON text; of two with the same name the later one counts.
\<close>

definition obj_get :: "(string \<times> jsval) list \<Rightarrow> string \<Rightarrow> jsval" where
  "obj_get kvs k = (case map_of (rev kvs) k of None \<Rightarrow> JUndefined | Some v \<Rightarrow> v)"

fun join_commas :: "string list \<Rightarrow> string" where
  "join_commas [] = []"
| "join_commas [s] = s"
| "join_commas (s # t # ss) = s @ '','' @ join_commas (t # ss)"

fun to_string :: "jsval \<Rightarrow> string" where
  "to_string JUndefined = ''undefined''"
| "to_string JNull = ''null''"
| "to_string (JBool b) = (if b then ''true'' else ''false'')"
| "to_string (JNum n) = number_to_string n"
| "to_string (JStr s) = s"
| "to_string (JArr xs) =
     join_commas (map (\<lambda>x. if x = JUndefined \<or> x = JNull then [] else to_string x) xs)"
| "to_string (JObj kvs) = ''[object Object]''"

fun to_number :: "jsval \<Rightarrow> jsnum" where
  "to_number JUndefined = NaN"
| "to_number JNull = Fin 0"
| "to_number (JBool b) = Fin (if b then 1 else 0)"
| "to_number (JNum n) = n"
| "to_number (JStr s) = string_to_number s"
| "to_number (JArr xs) = string_to_number (to_string (JArr xs))"
| "to_number (JObj kvs) = NaN"

definition to_uint8 :: "jsnum \<Rightarrow> nat" where
  "to_uint8 n =
     (case n of
        Fin q \<Rightarrow> nat ((if 0 \<le> q then \<lfloor>q\<rfloor> else \<lceil>q\<rceil>) mod 256)
      | _ \<Rightarrow> 0)"

definition to_length :: "jsnum \<Rightarrow> int" where
  "to_length n =
     (case n of
        Fin q \<Rightarrow> if q \<le> 0 then 0 else min \<lfloor>q\<rfloor> (2 ^ 53 - 1)
      | PosInf \<Rightarrow> 2 ^ 53 - 1
      | _ \<Rightarrow> 0)"

definition uint8array_from :: "env \<Rightarrow> jsval \<Rightarrow> string + nat list" where
  \<comment> \<open>\<open>Uint8Array.from(v)\<close>: an array or a string is iterated; a number or a boolean has no
      length, so the result is empty; any other object is read as array-like, through its
      \<open>length\<close> and the properties \<open>0\<close>, \<open>1\<close>, ...; \<open>null\<close> and \<open>undefined\<close> throw\<close>
  "uint8array_from E v =
     (case v of
        JArr xs \<Rightarrow> Inr (map (\<lambda>x. to_uint8 (to_number x)) xs)
      | JStr s \<Rightarrow> Inr (map (\<lambda>c. to_uint8 (string_to_number [c])) s)
      | JNum n \<Rightarrow> Inr []
      | JBool b \<Rightarrow> Inr []
      | JObj kvs \<Rightarrow>
          (let len = to_length (to_number (obj_get kvs ''length''))
           in case typed_array_error E len of
                Some m \<Rightarrow> Inl m
              | None \<Rightarrow>
                  Inr (map (\<lambda>i. to_uint8 (to_number (obj_get kvs (dec i)))) [0..len - 1]))
      | _ \<Rightarrow> Inl (not_iterable_error E v))"

section \<open>The Solana helper functions of server.js\<close>

definition default_rpc_url :: string where
  "default_rpc_url = ''https://api.mainnet-beta.solana.com''"

definition rpc_url :: "env \<Rightarrow> string" where
  \<comment> \<open>\<open>process.env.SOLANA_RPC_URL || 'https://api.mainnet-beta.solana.com'\<close>\<close>
  "rpc_url E =
     (case process_env E ''SOLANA_RPC_URL'' of
        None \<Rightarrow> default_rpc_url
      | Some u \<Rightarrow> if u = [] then default_rpc_url else u)"

definition getBalance :: "env \<Rightarrow> jsval \<Rightarrow> (string + jsnum) \<times> event list" where
  "getBalance E pk =
     (let url = rpc_url E;
          conn = \<lparr>endpoint = url, commitment = None\<rparr>;
          t0 = [NewConnection url None]
      in case endpoint_error E url of
           Some m \<Rightarrow> (Inl m, t0)
         | None \<Rightarrow>
        (case newPublicKey E pk of
           Inl m \<Rightarrow> (Inl m, t0)
         | Inr pubKeyObj \<Rightarrow>
        (case rpc_getBalance E conn pubKeyObj of
           Inl m \<Rightarrow> (Inl m, t0 @ [RpcGetBalance conn pubKeyObj])
         | Inr balanceInLamports \<Rightarrow>
             (Inr (js_div_1e9 balanceInLamports), t0 @ [RpcGetBalance conn pubKeyObj]))))"

text \<open>
  \<open>sendSolTransaction\<close>, in stages. \<open>signing_identity\<close> is line 67, \<open>build_transfer\<close> the
  \<open>try\<close> block up to the \<open>Transaction\<close> with its one transfer instruction (lines 67 to
  81), \<open>submit_transfer\<close> the rest (lines 84 to 91).
\<close>

definition signing_identity :: "env \<Rightarrow> jsval \<Rightarrow> string + keypair" where
  \<comment> \<open>\<open>Keypair.fromSecretKey(Uint8Array.from(senderPrivateKey))\<close>\<close>
  "signing_identity E senderPrivateKey =
     (case uint8array_from E senderPrivateKey of
        Inl m \<Rightarrow> Inl m
      | Inr bytes \<Rightarrow>
     (case fromSecretKey E bytes of
        Inl m \<Rightarrow> Inl m
      | Inr pk \<Rightarrow> Inr \<lparr>publicKey = pk, secretKey = bytes\<rparr>))"

definition build_transfer ::
  "env \<Rightarrow> jsval \<Rightarrow> jsval \<Rightarrow> jsval \<Rightarrow> (string + keypair \<times> connection \<times> transaction) \<times> event list"
where
  "build_transfer E senderPrivateKey recipientAddress amount =
     (case signing_identity E senderPrivateKey of
        Inl m \<Rightarrow> (Inl m, [])
      | Inr senderKeypair \<Rightarrow>
     (let url = rpc_url E;
          conn = \<lparr>endpoint = url, commitment = Some ''confirmed''\<rparr>;
          t0 = [NewConnection url (Some ''confirmed'')]
      in case endpoint_error E url of
           Some m \<Rightarrow> (Inl m, t0)
         | None \<Rightarrow>
        (case newPublicKey E recipientAddress of
           Inl m \<Rightarrow> (Inl m, t0)
         | Inr recipientPublicKey \<Rightarrow>
        (let ins = \<lparr>fromPubkey = publicKey senderKeypair,
                    toPubkey = recipientPublicKey,
                    lamports = js_times_1e9 (to_number amount)\<rparr>
         in case transfer_error E ins of
              Some m \<Rightarrow> (Inl m, t0)
            | None \<Rightarrow>
                (Inr (senderKeypair, conn,
                      \<lparr>instructions = [ins], recentBlockhash = None, feePayer = None\<rparr>),
                 t0)))))"

definition submit_transfer ::
  "env \<Rightarrow> keypair \<Rightarrow> connection \<Rightarrow> transaction \<Rightarrow> (string + string) \<times> event list"
where
  "submit_transfer E senderKeypair conn tx0 =
     (case rpc_getLatestBlockhash E conn of
        Inl m \<Rightarrow> (Inl m, [RpcGetLatestBlockhash conn])
      | Inr blockhash \<Rightarrow>
     (let tx = tx0\<lparr>recentBlockhash := Some blockhash,
                  feePayer := Some (publicKey senderKeypair)\<rparr>;
          t1 = [RpcGetLatestBlockhash conn, RpcSendTransaction conn tx [senderKeypair]]
      in case rpc_sendTransaction E conn tx [senderKeypair] of
           Inl m \<Rightarrow> (Inl m, t1)
         | Inr signature \<Rightarrow>
        (let t2 = t1 @ [RpcConfirmTransaction conn signature ''confirmed'']
         in case rpc_confirmTransaction E conn signature ''confirmed'' of
              Inl m \<Rightarrow> (Inl m, t2)
            | Inr u \<Rightarrow> (Inr signature, t2))))"

definition try_sendSolTransaction ::
  "env \<Rightarrow> jsval \<Rightarrow> jsval \<Rightarrow> jsval \<Rightarrow> jsval \<Rightarrow> (string + string) \<times> event list"
where
  "try_sendSolTransaction E senderAddress senderPrivateKey recipientAddress amount =
     (case build_transfer E senderPrivateKey recipientAddress amount of
        (Inl m, t) \<Rightarrow> (Inl m, t)
      | (Inr (senderKeypair, conn, tx0), t) \<Rightarrow>
          (case submit_transfer E senderKeypair conn tx0 of (r, t') \<Rightarrow> (r, t @ t')))"

definition sendSolTransaction ::
  "env \<Rightarrow> jsval \<Rightarrow> jsval \<Rightarrow> jsval \<Rightarrow> jsval \<Rightarrow> (string + string) \<times> event list"
where
  \<comment> \<open>the \<open>catch\<close> block rethrows every error as \<open>'Transaction failed: ' + error.message\<close>\<close>
  "sendSolTransaction E senderAddress senderPrivateKey recipientAddress amount =
     (case try_sendSolTransaction E senderAddress senderPrivateKey recipientAddress amount of
        (Inl m, t) \<Rightarrow> (Inl (''Transaction failed: '' @ m), t)
      | (Inr signature, t) \<Rightarrow> (Inr signature, t))"

section \<open>The route handlers of server.js\<close>

datatype payload = Json "(string \<times> jsval) list" | Text string | NoRoute

record response =
  status :: nat
  payload :: payload

record request =
  req_method :: string
  req_path :: "string list"
  req_headers :: "string \<rightharpoonup> string"
  req_body :: "string \<rightharpoonup> jsval"
  req_user :: jsval

definition field :: "(string \<rightharpoonup> jsval) \<Rightarrow> string \<Rightarrow> jsval" where
  \<comment> \<open>reading a property of \<open>req.body\<close>: an absent one is \<open>undefined\<close>\<close>
  "field b k = (case b k of None \<Rightarrow> JUndefined | Some v \<Rightarrow> v)"

definition missing_fields :: response where
  "missing_fields =
     \<lparr>status = 400,
      payload = Json [(''error'', JStr ''Missing required fields''),
                      (''details'',
                       JStr ''Need senderAddress, senderPrivateKey, recipientAddress, and amount'')]\<rparr>"

definition transaction_failed :: "string \<Rightarrow> response" where
  "transaction_failed m =
     \<lparr>status = 500,
      payload = Json [(''error'', JStr ''Transaction failed''), (''message'', JStr m)]\<rparr>"

definition transaction_sent :: "string \<Rightarrow> response" where
  "transaction_sent signature =
     \<lparr>status = 200,
      payload = Json [(''success'', JBool True), (''signature'', JStr signature)]\<rparr>"

definition get_api_check_balance :: "env \<Rightarrow> jsval \<Rightarrow> response \<times> event list" where
  \<comment> \<open>\<open>app.get('/api/check-balance/:publicKey')\<close>\<close>
  "get_api_check_balance E pk =
     (case getBalance E pk of
        (Inr balance, t) \<Rightarrow> (\<lparr>status = 200, payload = Json [(''balance'', JNum balance)]\<rparr>, t)
      | (Inl m, t) \<Rightarrow>
          (\<lparr>status = 500,
            payload = Json [(''error'', JStr ''Failed to retrieve balance'')]\<rparr>, t))"

definition post_auth_send :: "env \<Rightarrow> (string \<rightharpoonup> jsval) \<Rightarrow> response \<times> event list" where
  \<comment> \<open>\<open>app.post('/auth/send')\<close>\<close>
  "post_auth_send E body =
     (let senderAddress = field body ''senderAddress'';
          senderPrivateKey = field body ''senderPrivateKey'';
          recipientAddress = field body ''recipientAddress'';
          amount = field body ''amount''
      in if \<not> truthy senderAddress \<or> \<not> truthy senderPrivateKey
            \<or> \<not> truthy recipientAddress \<or> \<not> truthy amount
         then (missing_fields, [])
         else (case sendSolTransaction E senderAddress senderPrivateKey recipientAddress amount of
                 (Inr transactionResult, t) \<Rightarrow> (transaction_sent transactionResult, t)
               | (Inl m, t) \<Rightarrow> (transaction_failed m, t)))"

definition get_root :: response where
  \<comment> \<open>\<open>app.get('/')\<close>; the first nine bytes are those of the source file\<close>
  "get_root =
     \<lparr>status = 200,
      payload = Text (map char_of [0xC3, 0xB0, 0xC5, 0xB8, 0xC5, 0xA1, 0xE2, 0x82, 0xAC :: nat]
                      @ '' Solana Wallet Backend is Live!'')\<rparr>"

definition error_handler :: "string \<Rightarrow> response" where
  \<comment> \<open>the global error handler\<close>
  "error_handler m =
     \<lparr>status = 500,
      payload = Json [(''message'', JStr ''Something went wrong!''), (''error'', JStr m)]\<rparr>"

section \<open>Routing\<close>

text \<open>
  The application as Express runs it, for a request that the middleware registered before
  the routes (\<open>cors\<close>, \<open>express.json\<close>, \<open>helmet\<close>, \<open>morgan\<close>, \<open>cookieParser\<close>) has parsed and
  passed on: the path is the list of the segments between its slashes (taken to hold no
  percent escapes; a path that ends in a slash ends in an empty segment) and the body is
  the parsed JSON object. Only \<open>cors\<close> answers by itself, the preflight \<open>OPTIONS\<close>
  requests. Routes are matched as Express does by default: letters without regard to case,
  one trailing slash allowed.

  What a handler did with a request: ended it with a response, passed it on with \<open>next()\<close>
  (possibly after changing it), or failed (\<open>next(err)\<close>, or a throw that Express catches).
\<close>

datatype outcome = Respond response | Next request | NextError string

datatype handler =
    Controller controller
  | Inline_dashboard
  | Inline_check_balance
  | Inline_send
  | Inline_root

datatype seg = Lit string | Param string

type_synonym route = "string \<times> seg list \<times> handler list"

definition auth_routes :: "route list" where
  \<comment> \<open>\<open>routes/authRoutes.js\<close>, in the order of the file\<close>
  "auth_routes =
     [(''POST'', [Lit ''signup''], [Controller signup]),
      (''POST'', [Lit ''login''], [Controller login]),
      (''POST'', [Lit ''logout''], [Controller logout]),
      (''GET'', [Lit ''dashboard''], [Controller authenticateToken, Inline_dashboard]),
      (''POST'', [Lit ''check-balance''], [Controller authenticateToken, Controller checkBalance]),
      (''POST'', [Lit ''send''], [Controller authenticateToken, Controller sendTransaction]),
      (''GET'', [Lit ''transactions'', Param ''address''],
         [Controller authenticateToken, Controller getTransactions]),
      (''GET'', [Lit ''balance'', Param ''address''],
         [Controller authenticateToken, Controller checkBalance]),
      (''GET'', [Lit ''transactions''], [Controller getTransactionHistory]),
      (''DELETE'', [Lit ''transaction'', Param ''id''], [Controller deleteTransaction]),
      (''GET'', [Lit ''profile''], [Controller authenticateToken, Controller getUserProfile]),
      (''DELETE'', [Lit ''profile''], [Controller authenticateToken, Controller deleteProfile]),
      (''GET'', [Lit ''user'', Param ''id''], [Controller verifyToken, Controller getUserProfile]),
      (''PATCH'', [Lit ''profile''], [Controller authenticateToken, Controller updateProfile])]"

definition app_routes :: "route list" where
  \<comment> \<open>the routes of \<open>server.js\<close> registered after \<open>app.use("/auth", authRoutes)\<close>\<close>
  "app_routes =
     [(''GET'', [Lit ''api'', Lit ''check-balance'', Param ''publicKey''], [Inline_check_balance]),
      (''POST'', [Lit ''auth'', Lit ''send''], [Inline_send]),
      (''GET'', [], [Inline_root])]"

definition method_matches :: "string \<Rightarrow> string \<Rightarrow> bool" where
  \<comment> \<open>a \<open>GET\<close> route also serves \<open>HEAD\<close>\<close>
  "method_matches m rm = (m = rm \<or> (m = ''GET'' \<and> rm = ''HEAD''))"

definition lower :: "string \<Rightarrow> string" where
  "lower s =
     map (\<lambda>c. if 65 \<le> (of_char c :: nat) \<and> (of_char c :: nat) \<le> 90
              then char_of ((of_char c :: nat) + 32) else c) s"

definition segments :: "string list \<Rightarrow> string list" where
  \<comment> \<open>the path without its trailing slash\<close>
  "segments p = (if p \<noteq> [] \<and> last p = [] then butlast p else p)"

fun matches :: "seg list \<Rightarrow> string list \<Rightarrow> bool" where
  "matches [] [] = True"
| "matches (Lit l # ps) (x # xs) = (lower l = lower x \<and> matches ps xs)"
| "matches (Param n # ps) (x # xs) = (x \<noteq> [] \<and> matches ps xs)"
| "matches _ _ = False"

fun param :: "seg list \<Rightarrow> string list \<Rightarrow> string \<Rightarrow> jsval" where
  \<comment> \<open>\<open>req.params[n]\<close>\<close>
  "param (Param n # ps) (x # xs) k = (if n = k then JStr x else param ps xs k)"
| "param (Lit l # ps) (x # xs) k = param ps xs k"
| "param _ _ k = JUndefined"

definition dashboard :: "env \<Rightarrow> request \<Rightarrow> outcome" where
  \<comment> \<open>the handler of \<open>/dashboard\<close>, which reads \<open>req.user.username\<close>\<close>
  "dashboard E req =
     (let greet = (\<lambda>name.
            Respond \<lparr>status = 200,
                     payload = Json [(''message'',
                       JStr (''Welcome to your dashboard, '' @ to_string name @ ''!''))]\<rparr>)
      in case req_user req of
           JUndefined \<Rightarrow> NextError (property_error E JUndefined ''username'')
         | JNull \<Rightarrow> NextError (property_error E JNull ''username'')
         | JObj kvs \<Rightarrow> greet (obj_get kvs ''username'')
         | _ \<Rightarrow> greet JUndefined)"

definition responded :: "response \<times> event list \<Rightarrow> outcome \<times> event list" where
  "responded rt = (Respond (fst rt), snd rt)"

fun run_handler ::
  "env \<Rightarrow> (controller \<Rightarrow> request \<Rightarrow> outcome \<times> event list) \<Rightarrow> seg list \<Rightarrow> handler \<Rightarrow> request
     \<Rightarrow> outcome \<times> event list"
where
  "run_handler E C pat (Controller c) req = (case C c req of (out, t) \<Rightarrow> (out, Call c # t))"
| "run_handler E C pat Inline_dashboard req = (dashboard E req, [])"
| "run_handler E C pat Inline_check_balance req =
     responded (get_api_check_balance E (param pat (segments (req_path req)) ''publicKey''))"
| "run_handler E C pat Inline_send req = responded (post_auth_send E (req_body req))"
| "run_handler E C pat Inline_root req = (Respond get_root, [])"

fun run_chain ::
  "env \<Rightarrow> (controller \<Rightarrow> request \<Rightarrow> outcome \<times> event list) \<Rightarrow> seg list \<Rightarrow> handler list \<Rightarrow> request
     \<Rightarrow> outcome \<times> event list"
where
  "run_chain E C pat [] req = (Next req, [])"
| "run_chain E C pat (h # hs) req =
     (case run_handler E C pat h req of
        (Next req', t) \<Rightarrow> (case run_chain E C pat hs req' of (out, t') \<Rightarrow> (out, t @ t'))
      | (out, t) \<Rightarrow> (out, t))"

fun run_routes ::
  "env \<Rightarrow> (controller \<Rightarrow> request \<Rightarrow> outcome \<times> event list) \<Rightarrow> route list \<Rightarrow> request
     \<Rightarrow> outcome \<times> event list"
where
  "run_routes E C [] req = (Next req, [])"
| "run_routes E C ((m, pat, hs) # rs) req =
     (if method_matches m (req_method req) \<and> matches pat (segments (req_path req))
      then (case run_chain E C pat hs req of
              (Next req', t) \<Rightarrow> (case run_routes E C rs req' of (out, t') \<Rightarrow> (out, t @ t'))
            | (out, t) \<Rightarrow> (out, t))
      else run_routes E C rs req)"

definition app ::
  "env \<Rightarrow> (controller \<Rightarrow> request \<Rightarrow> outcome \<times> event list) \<Rightarrow> request \<Rightarrow> response \<times> event list"
where
  "app E C req =
     (if req_method req = ''OPTIONS'' then (\<lparr>status = 204, payload = Text []\<rparr>, [])
      else
        (case (case req_path req of
                 [] \<Rightarrow> (Next req, [])
               | p # ps \<Rightarrow>
                   if lower p = ''auth'' then run_routes E C auth_routes (req\<lparr>req_path := ps\<rparr>)
                   else (Next req, [])) of
           (Respond r, t) \<Rightarrow> (r, t)
         | (NextError m, t) \<Rightarrow> (error_handler m, t)
         | (Next req', t) \<Rightarrow>
             (case run_routes E C app_routes (req'\<lparr>req_path := req_path req\<rparr>) of
                (Respond r, t') \<Rightarrow> (r, t @ t')
              | (NextError m, t') \<Rightarrow> (error_handler m, t @ t')
              | (Next req'', t') \<Rightarrow> (\<lparr>status = 404, payload = NoRoute\<rparr>, t @ t'))))"

section \<open>Concrete environments and requests\<close>

text \<open>
  A key pair, two addresses and a signature that the library accepts: the first two test
  vectors of RFC 8032 (a secret key is the 32 bytes of the seed followed by the 32 bytes of
  the public key; an address is the public key in base 58).
\<close>

definition key_bytes :: "nat list" where
  "key_bytes =
     [157, 97, 177, 157, 239, 253, 90, 96, 186, 132, 74, 244, 146, 236, 44, 196,
      68, 73, 197, 105, 123, 50, 105, 25, 112, 59, 172, 3, 28, 174, 127, 96,
      215, 90, 152, 1, 130, 177, 10, 183, 213, 75, 254, 211, 201, 100, 7, 58,
      14, 225, 114, 243, 218, 166, 35, 37, 175, 2, 26, 104, 247, 7, 81, 26]"

definition sender_address :: string where
  "sender_address = ''FVen3X669xLzsi6N2V91DoiyzHzg1uAgqiT8jZ9nS96Z''"

definition recipient_address :: string where
  "recipient_address = ''586Z7H2vpX9qNhN2T4e9Utugie3ogjbxzGaMtM3E6HR5''"

definition blockhash1 :: string where
  "blockhash1 = ''4ruaGCyaofHWGxPFXFVjuEJCdfBGZ2wCtEx6LzdzVqtV''"

definition signature1 :: string where
  "signature1 =
     ''5awYiUvGiDFA33EJjj4TXJG44a5afJc8QjWRpGgQiu6b23jCr7yndW2fmp9ujwqJVe32J456wV3VF78Asb1obnTc''"

text \<open>
  The library as far as the runs below need it. \<open>keypair_of\<close> is \<open>Keypair.fromSecretKey\<close>
  for a library that knows the one key pair above: it refuses any other length, and any
  other 64 bytes as not matching. \<open>public_key_of\<close> is \<open>new PublicKey\<close> on strings: base 58
  that decodes to 32 bytes. \<open>check_endpoint\<close> is the test of the \<open>Connection\<close>
  constructor. \<open>check_transfer\<close> is \<open>SystemProgram.transfer\<close>, which turns the lamports
  into a \<open>BigInt\<close> and throws on a number that is not whole. What it does with a negative
  whole number depends on how the library was built; here it refuses that too, and
  nothing below rests on it.
\<close>

definition keypair_of :: "nat list \<Rightarrow> string + pubkey" where
  "keypair_of bs =
     (if length bs = 64
      then (if bs = key_bytes then Inr sender_address else Inl ''provided secretKey is invalid'')
      else Inl ''bad secret key size'')"

definition b58_alphabet :: string where
  "b58_alphabet = ''123456789ABCDEFGHJKLMNPQRSTUVWXYZabcdefghijkmnopqrstuvwxyz''"

fun b58_digit :: "string \<Rightarrow> char \<Rightarrow> int" where
  \<comment> \<open>the place of the character in the alphabet, counted from the alphabet's end on\<close>
  "b58_digit [] c = 0"
| "b58_digit (x # xs) c = (if x = c then 0 else 1 + b58_digit xs c)"

function byte_len :: "int \<Rightarrow> nat" where
  "byte_len n = (if n \<le> 0 then 0 else Suc (byte_len (n div 256)))"
  by pat_completeness auto
termination
  by (relation "measure nat") auto

declare byte_len.simps [simp del]

definition b58_length :: "string \<Rightarrow> nat" where
  \<comment> \<open>the number of bytes a base 58 string decodes to\<close>
  "b58_length s =
     length (takeWhile (\<lambda>c. c = CHR ''1'') s)
     + byte_len (foldl (\<lambda>a c. a * 58 + b58_digit b58_alphabet c) 0 s)"

definition public_key_of :: "jsval \<Rightarrow> string + pubkey" where
  "public_key_of v =
     (case v of
        JStr s \<Rightarrow>
          if list_all (\<lambda>c. c \<in> set b58_alphabet) s
          then (if b58_length s = 32 then Inr s else Inl ''Invalid public key input'')
          else Inl ''Non-base58 character''
      | _ \<Rightarrow> Inl ''Invalid public key input'')"

definition check_endpoint :: "string \<Rightarrow> string option" where
  "check_endpoint u =
     (if take 5 u = ''http:'' \<or> take 6 u = ''https:'' then None
      else Some ''Endpoint URL must start with `http:` or `https:`.'')"

definition check_transfer :: "instruction \<Rightarrow> string option" where
  "check_transfer i =
     (case lamports i of
        Fin q \<Rightarrow>
          if of_int \<lfloor>q\<rfloor> = q
          then (if 0 \<le> q then None else Some ''a negative number cannot be encoded as u64'')
          else Some (''The number '' @ number_to_string (Fin q)
                     @ '' cannot be converted to a BigInt because it is not an integer'')
      | n \<Rightarrow> Some (''The number '' @ number_to_string n
                   @ '' cannot be converted to a BigInt because it is not an integer''))"

text \<open>A node that answers every call, and variations of it.\<close>

definition env_ok :: env where
  "env_ok =
     \<lparr>process_env = Map.empty,
      not_iterable_error =
        (\<lambda>v. (if v = JNull then ''object null'' else to_string v) @ '' is not iterable''),
      typed_array_error =
        (\<lambda>n. if n < 4294967296 then None
             else Some (''Invalid typed array length: '' @ dec n)),
      property_error =
        (\<lambda>v k. ''Cannot read properties of '' @ to_string v
               @ '' (reading '' @ [CHR 0x27] @ k @ [CHR 0x27] @ '')''),
      fromSecretKey = keypair_of,
      newPublicKey = public_key_of,
      endpoint_error = check_endpoint,
      transfer_error = check_transfer,
      rpc_getBalance = (\<lambda>c p. Inr (Fin 2000000000)),
      rpc_getLatestBlockhash = (\<lambda>c. Inr blockhash1),
      rpc_sendTransaction = (\<lambda>c t ks. Inr signature1),
      rpc_confirmTransaction = (\<lambda>c s l. Inr ())\<rparr>"

definition key64 :: jsval where
  "key64 = JArr (map (\<lambda>b. JNum (Fin (of_nat b))) key_bytes)"

definition key64_wrapped :: jsval where
  \<comment> \<open>the key with 256 added to every element: no element is a byte\<close>
  "key64_wrapped = JArr (map (\<lambda>b. JNum (Fin (of_nat b + 256))) key_bytes)"


definition transfer_body :: "string \<rightharpoonup> jsval" where
  "transfer_body =
     [''senderAddress'' \<mapsto> JStr sender_address, ''senderPrivateKey'' \<mapsto> key64,
      ''recipientAddress'' \<mapsto> JStr recipient_address, ''amount'' \<mapsto> JNum (Fin (3 / 2))]"

definition four_point_one :: rat where
  \<comment> \<open>the binary64 number that the literal \<open>4.1\<close> denotes\<close>
  "four_point_one = 2308094809027379 / 562949953421312"

definition env_rejected :: env where
  "env_rejected = env_ok\<lparr>rpc_sendTransaction := (\<lambda>c t ks. Inl ''failed'')\<rparr>"

definition env_timeout :: env where
  "env_timeout = env_ok\<lparr>rpc_confirmTransaction := (\<lambda>c s l. Inl ''failed'')\<rparr>"

definition env_finalized :: env where
  "env_finalized =
     env_ok\<lparr>process_env := [''SOLANA_RPC_URL'' \<mapsto> ''http://localhost:8899'',
                             ''SOLANA_COMMITMENT'' \<mapsto> ''finalized'',
                             ''COMMITMENT'' \<mapsto> ''finalized'']\<rparr>"

definition confirmed_conn :: connection where
  "confirmed_conn = \<lparr>endpoint = default_rpc_url, commitment = Some ''confirmed''\<rparr>"

definition sender_keypair :: keypair where
  "sender_keypair = \<lparr>publicKey = sender_address, secretKey = key_bytes\<rparr>"

definition transfer_of :: "jsnum \<Rightarrow> transaction" where
  \<comment> \<open>the transaction of the runs below, as submitted\<close>
  "transfer_of n =
     \<lparr>instructions = [\<lparr>fromPubkey = sender_address, toPubkey = recipient_address,
                         lamports = n\<rparr>],
      recentBlockhash = Some blockhash1, feePayer = Some sender_address\<rparr>"

definition balance_request :: request where
  "balance_request =
     \<lparr>req_method = ''GET'', req_path = [''api'', ''check-balance'', sender_address],
      req_headers = Map.empty, req_body = Map.empty, req_user = JUndefined\<rparr>"

section \<open>Rounding is exact on whole numbers below \<open>2^53\<close>\<close>

lemma bit_len_le: "n < 2 ^ k \<Longrightarrow> bit_len n \<le> k"
proof (induction k arbitrary: n)
  case 0
  then show ?case by (simp add: bit_len.simps)
next
  case (Suc k)
  show ?case
  proof (cases "n \<le> 0")
    case True
    then show ?thesis by (simp add: bit_len.simps)
  next
    case False
    from Suc.prems have "n div 2 < 2 ^ k" by simp
    from Suc.IH [OF this] False show ?thesis by (simp add: bit_len.simps [of n])
  qed
qed

lemma bit_len_0: "bit_len 0 = 0"
  by (simp add: bit_len.simps)

lemma bit_len_1: "bit_len 1 = 1"
  by (simp add: bit_len.simps [of 1] bit_len_0)

lemma ilog2_of_int_le:
  assumes "0 < n" and "n < 2 ^ k"
  shows "ilog2 (of_int n) \<le> int k - 1"
proof -
  from bit_len_le [OF assms(2)] have "int (bit_len n) - 1 \<le> int k - 1" by simp
  then show ?thesis
    by (simp add: ilog2_def Let_def bit_len_1)
qed

lemma round_half_even_of_int: "round_half_even (of_int m) = m"
  by (simp add: round_half_even_def)

lemma pow2_nonpos: "e \<le> 0 \<Longrightarrow> pow2 e = 1 / 2 ^ nat (- e)"
  by (auto simp: pow2_def)

lemma round_double_of_int:
  assumes "0 < n" and "n < 2 ^ 53"
  shows "round_double (of_int n) = Fin (of_int n)"
proof -
  define e where "e = max (ilog2 (of_int n)) (- 1022)"
  define j where "j = nat (52 - e)"
  from ilog2_of_int_le [OF assms] have "e \<le> 52" by (simp add: e_def)
  then have ulp: "pow2 (e - 52) = 1 / 2 ^ j" by (simp add: pow2_nonpos j_def)
  have q: "(of_int n :: rat) / (1 / 2 ^ j) = of_int (n * 2 ^ j)" by simp
  have r: "of_int (round_half_even ((of_int n :: rat) / (1 / 2 ^ j))) * (1 / 2 ^ j) = (of_int n :: rat)"
    unfolding q round_half_even_of_int by simp
  have "(of_int n :: rat) < 2 ^ 53" using assms(2) by (metis of_int_less_numeral_power_cancel_iff)
  also have "\<dots> \<le> 2 ^ 1024" by (rule power_increasing) simp_all
  finally have small: "\<not> pow2 1024 \<le> (of_int n :: rat)" by (simp add: pow2_def)
  from assms(1) have pos: "(0 :: rat) < of_int n" "(of_int n :: rat) \<noteq> 0" "\<bar>of_int n :: rat\<bar> = of_int n"
    by simp_all
  show ?thesis
    unfolding round_double_def Let_def pos(3) e_def [symmetric] ulp r
    using pos small by simp
qed

lemma bit_len_numeral: "bit_len (numeral n) = Suc (bit_len (numeral n div 2))"
  by (subst bit_len.simps) simp

lemma round_1500000000: "round_double 1500000000 = Fin 1500000000"
  using round_double_of_int [of 1500000000] by simp

lemma three_halves_times_1e9: "round_double (3 / 2 * 1000000000) = Fin 1500000000"
  using round_1500000000 by simp


lemma round_2: "round_double 2 = Fin 2"
  using round_double_of_int [of 2] by simp

section \<open>The stages of a transfer\<close>

lemma build_transfer_Inr:
  assumes "build_transfer E k r am = (Inr (kp, c, tx0), t)"
  shows "signing_identity E k = Inr kp
       \<and> c = \<lparr>endpoint = rpc_url E, commitment = Some ''confirmed''\<rparr>
       \<and> t = [NewConnection (rpc_url E) (Some ''confirmed'')]
       \<and> (\<exists>rp. newPublicKey E r = Inr rp
            \<and> tx0 = \<lparr>instructions = [\<lparr>fromPubkey = publicKey kp, toPubkey = rp,
                                         lamports = js_times_1e9 (to_number am)\<rparr>],
                      recentBlockhash = None, feePayer = None\<rparr>)"
  using assms
  by (auto simp: build_transfer_def Let_def split: sum.splits option.splits)

lemma build_transfer_Inl:
  assumes "build_transfer E k r am = (Inl m, t)"
  shows "t = [] \<or> t = [NewConnection (rpc_url E) (Some ''confirmed'')]"
  using assms
  by (auto simp: build_transfer_def Let_def split: sum.splits option.splits)

lemma submit_anchor_failed:
  "rpc_getLatestBlockhash E c = Inl m \<Longrightarrow>
   submit_transfer E kp c tx0 = (Inl m, [RpcGetLatestBlockhash c])"
  by (simp add: submit_transfer_def)

lemma submit_rejected:
  "rpc_getLatestBlockhash E c = Inr bh \<Longrightarrow>
   tx = tx0\<lparr>recentBlockhash := Some bh, feePayer := Some (publicKey kp)\<rparr> \<Longrightarrow>
   rpc_sendTransaction E c tx [kp] = Inl m \<Longrightarrow>
   submit_transfer E kp c tx0
     = (Inl m, [RpcGetLatestBlockhash c, RpcSendTransaction c tx [kp]])"
  by (simp add: submit_transfer_def)

lemma submit_unconfirmed:
  "rpc_getLatestBlockhash E c = Inr bh \<Longrightarrow>
   tx = tx0\<lparr>recentBlockhash := Some bh, feePayer := Some (publicKey kp)\<rparr> \<Longrightarrow>
   rpc_sendTransaction E c tx [kp] = Inr sg \<Longrightarrow>
   rpc_confirmTransaction E c sg ''confirmed'' = Inl m \<Longrightarrow>
   submit_transfer E kp c tx0
     = (Inl m, [RpcGetLatestBlockhash c, RpcSendTransaction c tx [kp],
                RpcConfirmTransaction c sg ''confirmed''])"
  by (simp add: submit_transfer_def)

lemma submit_confirmed:
  "rpc_getLatestBlockhash E c = Inr bh \<Longrightarrow>
   tx = tx0\<lparr>recentBlockhash := Some bh, feePayer := Some (publicKey kp)\<rparr> \<Longrightarrow>
   rpc_sendTransaction E c tx [kp] = Inr sg \<Longrightarrow>
   rpc_confirmTransaction E c sg ''confirmed'' = Inr u \<Longrightarrow>
   submit_transfer E kp c tx0
     = (Inr sg, [RpcGetLatestBlockhash c, RpcSendTransaction c tx [kp],
                 RpcConfirmTransaction c sg ''confirmed''])"
  by (simp add: submit_transfer_def)

lemma submit_transfer_cases:
  obtains
    (anchor_failed) m where
      "rpc_getLatestBlockhash E c = Inl m"
      "submit_transfer E kp c tx0 = (Inl m, [RpcGetLatestBlockhash c])"
  | (rejected) bh tx m where
      "rpc_getLatestBlockhash E c = Inr bh"
      "tx = tx0\<lparr>recentBlockhash := Some bh, feePayer := Some (publicKey kp)\<rparr>"
      "rpc_sendTransaction E c tx [kp] = Inl m"
      "submit_transfer E kp c tx0
         = (Inl m, [RpcGetLatestBlockhash c, RpcSendTransaction c tx [kp]])"
  | (unconfirmed) bh tx sg m where
      "rpc_getLatestBlockhash E c = Inr bh"
      "tx = tx0\<lparr>recentBlockhash := Some bh, feePayer := Some (publicKey kp)\<rparr>"
      "rpc_sendTransaction E c tx [kp] = Inr sg"
      "rpc_confirmTransaction E c sg ''confirmed'' = Inl m"
      "submit_transfer E kp c tx0
         = (Inl m, [RpcGetLatestBlockhash c, RpcSendTransaction c tx [kp],
                    RpcConfirmTransaction c sg ''confirmed''])"
  | (confirmed) bh tx sg where
      "rpc_getLatestBlockhash E c = Inr bh"
      "tx = tx0\<lparr>recentBlockhash := Some bh, feePayer := Some (publicKey kp)\<rparr>"
      "rpc_sendTransaction E c tx [kp] = Inr sg"
      "rpc_confirmTransaction E c sg ''confirmed'' = Inr ()"
      "submit_transfer E kp c tx0
         = (Inr sg, [RpcGetLatestBlockhash c, RpcSendTransaction c tx [kp],
                     RpcConfirmTransaction c sg ''confirmed''])"
proof (cases "rpc_getLatestBlockhash E c")
  case (Inl m)
  then show ?thesis using anchor_failed submit_anchor_failed by blast
next
  case bh: (Inr bh)
  define tx where "tx = tx0\<lparr>recentBlockhash := Some bh, feePayer := Some (publicKey kp)\<rparr>"
  show ?thesis
  proof (cases "rpc_sendTransaction E c tx [kp]")
    case (Inl m)
    then show ?thesis using rejected [OF bh tx_def] submit_rejected [OF bh tx_def] by blast
  next
    case sg: (Inr sg)
    show ?thesis
    proof (cases "rpc_confirmTransaction E c sg ''confirmed''")
      case (Inl m)
      then show ?thesis
        using unconfirmed [OF bh tx_def sg] submit_unconfirmed [OF bh tx_def sg] by blast
    next
      case (Inr u)
      then show ?thesis
        using confirmed [OF bh tx_def sg] submit_confirmed [OF bh tx_def sg] by auto
    qed
  qed
qed

text \<open>The whole of \<open>sendSolTransaction\<close>: what it returns and what it did, case by case.\<close>

lemma sendSolTransaction_cases:
  obtains
    (not_built) m t where
      "build_transfer E k r am = (Inl m, t)"
      "t = [] \<or> t = [NewConnection (rpc_url E) (Some ''confirmed'')]"
      "sendSolTransaction E sa k r am = (Inl (''Transaction failed: '' @ m), t)"
  | (built) kp c tx0 res t where
      "build_transfer E k r am = (Inr (kp, c, tx0), [NewConnection (rpc_url E) (Some ''confirmed'')])"
      "submit_transfer E kp c tx0 = (res, t)"
      "sendSolTransaction E sa k r am
         = ((case res of Inl m \<Rightarrow> Inl (''Transaction failed: '' @ m) | Inr sg \<Rightarrow> Inr sg),
            NewConnection (rpc_url E) (Some ''confirmed'') # t)"
proof (cases "build_transfer E k r am")
  case (Pair b t)
  show ?thesis
  proof (cases b)
    case (Inl m)
    with Pair build_transfer_Inl [of E k r am m t] not_built [of m t] show ?thesis
      by (simp add: sendSolTransaction_def try_sendSolTransaction_def)
  next
    case (Inr x)
    obtain kp c tx0 where x: "x = (kp, c, tx0)" by (cases x) auto
    obtain res t' where st: "submit_transfer E kp c tx0 = (res, t')"
      by (cases "submit_transfer E kp c tx0") auto
    from Pair Inr x have b: "build_transfer E k r am = (Inr (kp, c, tx0), t)" by simp
    from build_transfer_Inr [OF b] have t: "t = [NewConnection (rpc_url E) (Some ''confirmed'')]"
      by simp
    show ?thesis
      using built [of kp c tx0 res t'] b st t
      by (simp add: sendSolTransaction_def try_sendSolTransaction_def split: sum.splits)
  qed
qed

lemma post_auth_send_truthy:
  assumes "truthy (field body ''senderAddress'')" "truthy (field body ''senderPrivateKey'')"
    "truthy (field body ''recipientAddress'')" "truthy (field body ''amount'')"
  shows "post_auth_send E body =
     (case sendSolTransaction E (field body ''senderAddress'') (field body ''senderPrivateKey'')
             (field body ''recipientAddress'') (field body ''amount'') of
        (Inr sg, t) \<Rightarrow> (transaction_sent sg, t)
      | (Inl m, t) \<Rightarrow> (transaction_failed m, t))"
  using assms by (simp add: post_auth_send_def Let_def)

lemma post_auth_send_falsy:
  assumes "\<not> truthy (field body ''senderAddress'') \<or> \<not> truthy (field body ''senderPrivateKey'')
    \<or> \<not> truthy (field body ''recipientAddress'') \<or> \<not> truthy (field body ''amount'')"
  shows "post_auth_send E body = (missing_fields, [])"
  using assms by (auto simp add: post_auth_send_def Let_def)

lemma post_auth_send_trace:
  "snd (post_auth_send E body) = [] \<or>
   snd (post_auth_send E body)
     = snd (sendSolTransaction E (field body ''senderAddress'') (field body ''senderPrivateKey'')
             (field body ''recipientAddress'') (field body ''amount''))"
  by (auto simp add: post_auth_send_def Let_def split: prod.splits sum.splits)

lemma sendSolTransaction_ignores_senderAddress:
  "sendSolTransaction E a1 k r am = sendSolTransaction E a2 k r am"
  by (simp add: sendSolTransaction_def try_sendSolTransaction_def)

text \<open>The events of one \<open>sendSolTransaction\<close>.\<close>

lemma sendSolTransaction_trace:
  obtains
    (none) "snd (sendSolTransaction E sa k r am) = []"
  | (connection) "snd (sendSolTransaction E sa k r am) = [NewConnection (rpc_url E) (Some ''confirmed'')]"
  | (anchor) kp c tx0 m where
      "build_transfer E k r am = (Inr (kp, c, tx0), [NewConnection (rpc_url E) (Some ''confirmed'')])"
      "rpc_getLatestBlockhash E c = Inl m"
      "sendSolTransaction E sa k r am = (Inl (''Transaction failed: '' @ m), 
           [NewConnection (rpc_url E) (Some ''confirmed''), RpcGetLatestBlockhash c])"
  | (sent) kp c tx0 bh tx m where
      "build_transfer E k r am = (Inr (kp, c, tx0), [NewConnection (rpc_url E) (Some ''confirmed'')])"
      "rpc_getLatestBlockhash E c = Inr bh"
      "tx = tx0\<lparr>recentBlockhash := Some bh, feePayer := Some (publicKey kp)\<rparr>"
      "rpc_sendTransaction E c tx [kp] = Inl m"
      "sendSolTransaction E sa k r am = (Inl (''Transaction failed: '' @ m), 
           [NewConnection (rpc_url E) (Some ''confirmed''), RpcGetLatestBlockhash c,
            RpcSendTransaction c tx [kp]])"
  | (waited) kp c tx0 bh tx sg where
      "build_transfer E k r am = (Inr (kp, c, tx0), [NewConnection (rpc_url E) (Some ''confirmed'')])"
      "rpc_getLatestBlockhash E c = Inr bh"
      "tx = tx0\<lparr>recentBlockhash := Some bh, feePayer := Some (publicKey kp)\<rparr>"
      "rpc_sendTransaction E c tx [kp] = Inr sg"
      "sendSolTransaction E sa k r am =
          ((case rpc_confirmTransaction E c sg ''confirmed'' of
              Inl m \<Rightarrow> Inl (''Transaction failed: '' @ m) | Inr u \<Rightarrow> Inr sg),
           [NewConnection (rpc_url E) (Some ''confirmed''), RpcGetLatestBlockhash c,
            RpcSendTransaction c tx [kp], RpcConfirmTransaction c sg ''confirmed''])"
proof (cases rule: sendSolTransaction_cases [of E k r am sa])
  case (not_built m t)
  then show ?thesis using none connection by auto
next
  case (built kp c tx0 res t)
  show ?thesis
  proof (cases rule: submit_transfer_cases [of E c kp tx0])
    case (anchor_failed m)
    with built(2) have rt: "res = Inl m" "t = [RpcGetLatestBlockhash c]" by simp_all
    show ?thesis
      by (rule anchor [OF built(1) anchor_failed(1)]) (simp add: built(3) rt)
  next
    case (rejected bh tx m)
    with built(2) have rt: "res = Inl m" "t = [RpcGetLatestBlockhash c, RpcSendTransaction c tx [kp]]"
      by simp_all
    show ?thesis
      by (rule sent [OF built(1) rejected(1,2,3)]) (simp add: built(3) rt)
  next
    case (unconfirmed bh tx sg m)
    with built(2) have rt: "res = Inl m"
      "t = [RpcGetLatestBlockhash c, RpcSendTransaction c tx [kp],
            RpcConfirmTransaction c sg ''confirmed'']"
      by simp_all
    show ?thesis
      by (rule waited [OF built(1) unconfirmed(1,2,3)]) (simp add: built(3) rt unconfirmed(4))
  next
    case (confirmed bh tx sg)
    with built(2) have rt: "res = Inr sg"
      "t = [RpcGetLatestBlockhash c, RpcSendTransaction c tx [kp],
            RpcConfirmTransaction c sg ''confirmed'']"
      by simp_all
    show ?thesis
      by (rule waited [OF built(1) confirmed(1,2,3)]) (simp add: built(3) rt confirmed(4))
  qed
qed

lemma post_auth_send_cases:
  obtains
    (refused) "post_auth_send E body = (missing_fields, [])"
  | (ran) res t where
      "truthy (field body ''senderAddress'')" "truthy (field body ''senderPrivateKey'')"
      "truthy (field body ''recipientAddress'')" "truthy (field body ''amount'')"
      "sendSolTransaction E (field body ''senderAddress'') (field body ''senderPrivateKey'')
             (field body ''recipientAddress'') (field body ''amount'') = (res, t)"
      "post_auth_send E body =
         ((case res of Inr sg \<Rightarrow> transaction_sent sg | Inl m \<Rightarrow> transaction_failed m), t)"
proof (cases "truthy (field body ''senderAddress'') \<and> truthy (field body ''senderPrivateKey'')
      \<and> truthy (field body ''recipientAddress'') \<and> truthy (field body ''amount'')")
  case True
  obtain res t where s:
    "sendSolTransaction E (field body ''senderAddress'') (field body ''senderPrivateKey'')
             (field body ''recipientAddress'') (field body ''amount'') = (res, t)"
    by (cases "sendSolTransaction E (field body ''senderAddress'') (field body ''senderPrivateKey'')
             (field body ''recipientAddress'') (field body ''amount'')") auto
  have "post_auth_send E body =
         ((case res of Inr sg \<Rightarrow> transaction_sent sg | Inl m \<Rightarrow> transaction_failed m), t)"
    using True s by (simp add: post_auth_send_truthy split: sum.splits)
  with True s ran show ?thesis by blast
next
  case False
  then have "post_auth_send E body = (missing_fields, [])"
    using post_auth_send_falsy [of body E] by blast
  with refused show ?thesis .
qed

section \<open>The concrete runs\<close>

lemma key_bytes_length: "length key_bytes = 64"
  by (simp add: key_bytes_def)

lemma key_bytes_are_bytes: "list_all (\<lambda>b. b < 256) key_bytes"
  by (simp add: key_bytes_def)

lemma bytes_of_numbers:
  assumes "list_all (\<lambda>b. b < 256) bs"
  shows "map (\<lambda>x. to_uint8 (to_number x)) (map (\<lambda>b. JNum (Fin (of_nat b))) bs) = bs"
  using assms by (induction bs) (simp_all add: to_uint8_def)

lemma bytes_of_wrapped:
  assumes "list_all (\<lambda>b. b < 256) bs"
  shows "map (\<lambda>x. to_uint8 (to_number x)) (map (\<lambda>b. JNum (Fin (of_nat b + 256))) bs) = bs"
proof -
  have "to_uint8 (Fin (of_nat b + 256)) = b" if "b < 256" for b
  proof -
    have "(of_nat b + 256 :: rat) = of_int (int b + 256)" by simp
    then have "\<lfloor>of_nat b + 256 :: rat\<rfloor> = int b + 256" by (metis floor_of_int)
    with that show ?thesis by (simp add: to_uint8_def)
  qed
  with assms show ?thesis by (induction bs) simp_all
qed

lemma key64_bytes: "uint8array_from E key64 = Inr key_bytes"
  using bytes_of_numbers [OF key_bytes_are_bytes]
  by (simp add: uint8array_from_def key64_def)

lemma key64_wrapped_bytes: "uint8array_from E key64_wrapped = Inr key_bytes"
  using bytes_of_wrapped [OF key_bytes_are_bytes]
  by (simp add: uint8array_from_def key64_wrapped_def)

lemma key64_truthy: "truthy key64"
  by (simp add: key64_def)

lemma key64_wrapped_truthy: "truthy key64_wrapped"
  by (simp add: key64_wrapped_def)

lemma keypair_of_key_bytes: "keypair_of key_bytes = Inr sender_address"
  by (simp add: keypair_of_def key_bytes_length)

lemma keypair_of_short: "keypair_of [1, 2, 3] = Inl ''bad secret key size''"
  by (simp add: keypair_of_def)

lemma byte_len_numeral: "byte_len (numeral n) = Suc (byte_len (numeral n div 256))"
  by (subst byte_len.simps) simp

lemma byte_len_0: "byte_len 0 = 0"
  by (simp add: byte_len.simps)

lemma byte_len_1: "byte_len 1 = 1"
  by (simp add: byte_len.simps [of 1] byte_len_0)

lemmas b58_eval =
  public_key_of_def b58_length_def b58_alphabet_def byte_len_numeral byte_len_0 byte_len_1

lemma public_key_of_recipient: "public_key_of (JStr recipient_address) = Inr recipient_address"
  by (simp add: b58_eval recipient_address_def)

lemma public_key_of_sender: "public_key_of (JStr sender_address) = Inr sender_address"
  by (simp add: b58_eval sender_address_def)

lemma check_endpoint_default: "check_endpoint default_rpc_url = None"
  by (simp add: check_endpoint_def default_rpc_url_def)

lemma check_endpoint_local: "check_endpoint ''http://localhost:8899'' = None"
  by (simp add: check_endpoint_def)

lemma sender_address_truthy: "sender_address \<noteq> []"
  by (simp add: sender_address_def)

lemma recipient_address_truthy: "recipient_address \<noteq> []"
  by (simp add: recipient_address_def)

lemmas run_defs =
  post_auth_send_def field_def sendSolTransaction_def try_sendSolTransaction_def
  build_transfer_def signing_identity_def submit_transfer_def rpc_url_def js_times_1e9_def
  transaction_sent_def transaction_failed_def missing_fields_def confirmed_conn_def
  sender_keypair_def transfer_of_def Let_def transfer_body_def
  sender_address_truthy recipient_address_truthy key64_truthy key64_bytes
  key64_wrapped_truthy key64_wrapped_bytes keypair_of_key_bytes public_key_of_recipient
  check_endpoint_default check_endpoint_local check_transfer_def

lemma ok_run:
  "post_auth_send env_ok transfer_body
     = (transaction_sent signature1,
        [NewConnection default_rpc_url (Some ''confirmed''),
         RpcGetLatestBlockhash confirmed_conn,
         RpcSendTransaction confirmed_conn (transfer_of (Fin 1500000000)) [sender_keypair],
         RpcConfirmTransaction confirmed_conn signature1 ''confirmed''])"
  by (simp add: run_defs env_ok_def round_1500000000)

lemma finalized_run:
  "snd (post_auth_send env_finalized transfer_body)
     = [NewConnection ''http://localhost:8899'' (Some ''confirmed''),
        RpcGetLatestBlockhash \<lparr>endpoint = ''http://localhost:8899'', commitment = Some ''confirmed''\<rparr>,
        RpcSendTransaction \<lparr>endpoint = ''http://localhost:8899'', commitment = Some ''confirmed''\<rparr>
           (transfer_of (Fin 1500000000)) [sender_keypair],
        RpcConfirmTransaction \<lparr>endpoint = ''http://localhost:8899'', commitment = Some ''confirmed''\<rparr>
           signature1 ''confirmed'']"
  by (simp add: run_defs env_finalized_def env_ok_def round_1500000000)

lemma rejected_run:
  "post_auth_send env_rejected transfer_body
     = (\<lparr>status = 500,
         payload = Json [(''error'', JStr ''Transaction failed''),
                         (''message'', JStr ''Transaction failed: failed'')]\<rparr>,
        [NewConnection default_rpc_url (Some ''confirmed''),
         RpcGetLatestBlockhash confirmed_conn,
         RpcSendTransaction confirmed_conn (transfer_of (Fin 1500000000)) [sender_keypair]])"
  by (simp add: run_defs env_rejected_def env_ok_def round_1500000000)

lemma timeout_run:
  "post_auth_send env_timeout transfer_body
     = (\<lparr>status = 500,
         payload = Json [(''error'', JStr ''Transaction failed''),
                         (''message'', JStr ''Transaction failed: failed'')]\<rparr>,
        [NewConnection default_rpc_url (Some ''confirmed''),
         RpcGetLatestBlockhash confirmed_conn,
         RpcSendTransaction confirmed_conn (transfer_of (Fin 1500000000)) [sender_keypair],
         RpcConfirmTransaction confirmed_conn signature1 ''confirmed''])"
  by (simp add: run_defs env_timeout_def env_ok_def round_1500000000)




lemma four_point_one_facts:
  "round_double (41 / 10) = Fin four_point_one
   \<and> js_times_1e9 (Fin four_point_one) = Fin (8598323199999999 / 2097152)"
  by code_simp

lemma floor_of_product: "\<lfloor>8598323199999999 / 2097152 :: rat\<rfloor> = 4099999999"
  by (simp add: floor_eq_iff)

lemma four_point_one_truthy: "truthy (JNum (Fin four_point_one))"
  by (simp add: four_point_one_def)

lemma addresses_truthy: "truthy (JStr sender_address)" "truthy (JStr recipient_address)"
  by (simp_all add: sender_address_truthy recipient_address_truthy)

lemma fractional_lamports_refused:
  "check_transfer \<lparr>fromPubkey = a, toPubkey = b, lamports = Fin (8598323199999999 / 2097152)\<rparr>
     = Some (''The number '' @ number_to_string (Fin (8598323199999999 / 2097152))
             @ '' cannot be converted to a BigInt because it is not an integer'')"
  by (simp add: check_transfer_def floor_of_product)

lemma four_point_one_run:
  "post_auth_send env_ok (transfer_body(''amount'' \<mapsto> JNum (Fin four_point_one)))
     = (transaction_failed
          (''Transaction failed: The number '' @ number_to_string (Fin (8598323199999999 / 2097152))
           @ '' cannot be converted to a BigInt because it is not an integer''),
        [NewConnection default_rpc_url (Some ''confirmed'')])"
  using four_point_one_facts four_point_one_truthy addresses_truthy
  by (simp add: post_auth_send_def field_def sendSolTransaction_def try_sendSolTransaction_def
      build_transfer_def signing_identity_def rpc_url_def Let_def transfer_body_def
      sender_address_truthy recipient_address_truthy key64_truthy key64_bytes
      keypair_of_key_bytes public_key_of_recipient check_endpoint_default
      fractional_lamports_refused env_ok_def del: truthy.simps)




lemma balance_run:
  "app env_ok C balance_request
     = (\<lparr>status = 200, payload = Json [(''balance'', JNum (Fin 2))]\<rparr>,
        [NewConnection default_rpc_url None,
         RpcGetBalance \<lparr>endpoint = default_rpc_url, commitment = None\<rparr> sender_address])"
proof -
  have p: "req_path balance_request = [''api'', ''check-balance'', sender_address]"
    "req_method balance_request = ''GET''"
    by (simp_all add: balance_request_def)
  have n: "sender_address \<noteq> []" by (simp add: sender_address_def)
  have g: "get_api_check_balance env_ok (JStr sender_address)
     = (\<lparr>status = 200, payload = Json [(''balance'', JNum (Fin 2))]\<rparr>,
        [NewConnection default_rpc_url None,
         RpcGetBalance \<lparr>endpoint = default_rpc_url, commitment = None\<rparr> sender_address])"
    by (simp add: get_api_check_balance_def getBalance_def rpc_url_def js_div_1e9_def Let_def
        env_ok_def check_endpoint_default public_key_of_sender round_2)
  show ?thesis
    by (simp add: app_def app_routes_def p n g method_matches_def segments_def lower_def
        responded_def)
qed

section \<open>Properties of the transfer path\<close>














text \<open>
  C3. A submit call whose body lacks any of \<open>senderAddress\<close>, \<open>senderPrivateKey\<close>,
  \<open>recipientAddress\<close> or \<open>amount\<close> is answered at once with status 400 and a body that
  names the required fields; no connection is made and no RPC is called (the trace is empty).
\<close>

theorem missing_field_rejected_without_rpc:
  assumes "body ''senderAddress'' = None \<or> body ''senderPrivateKey'' = None
         \<or> body ''recipientAddress'' = None \<or> body ''amount'' = None"
  shows "post_auth_send E body =
           (\<lparr>status = 400,
             payload = Json [(''error'', JStr ''Missing required fields''),
                             (''details'',
                              JStr ''Need senderAddress, senderPrivateKey, recipientAddress, and amount'')]\<rparr>,
            [])"
proof -
  from assms have "\<not> truthy (field body ''senderAddress'') \<or> \<not> truthy (field body ''senderPrivateKey'')
    \<or> \<not> truthy (field body ''recipientAddress'') \<or> \<not> truthy (field body ''amount'')"
    by (auto simp: field_def)
  from post_auth_send_falsy [OF this] show ?thesis by (simp add: missing_fields_def)
qed

theorem missing_field_rejected_without_rpc_witness:
  "(transfer_body(''senderPrivateKey'' := None)) ''senderPrivateKey'' = None
   \<and> post_auth_send env_ok (transfer_body(''senderPrivateKey'' := None)) =
           (\<lparr>status = 400,
             payload = Json [(''error'', JStr ''Missing required fields''),
                             (''details'',
                              JStr ''Need senderAddress, senderPrivateKey, recipientAddress, and amount'')]\<rparr>,
            [])"
proof -
  have h: "(transfer_body(''senderPrivateKey'' := None)) ''senderPrivateKey'' = None" by simp
  from missing_field_rejected_without_rpc [of "transfer_body(''senderPrivateKey'' := None)" env_ok] h
  show ?thesis by blast
qed

text \<open>
  C5. Whenever a request submits a transaction, the same request has fetched the latest
  blockhash from the node strictly before, on the same connection, and the transaction
  carries exactly the blockhash the node returned to that fetch.
\<close>

theorem anchor_fetched_before_submission:
  assumes "snd (post_auth_send E body) = pre @ RpcSendTransaction c tx ks # post"
  shows "RpcGetLatestBlockhash c \<in> set pre
       \<and> (\<exists>bh. rpc_getLatestBlockhash E c = Inr bh \<and> recentBlockhash tx = Some bh)"
proof -
  let ?t = "snd (sendSolTransaction E (field body ''senderAddress'') (field body ''senderPrivateKey'')
             (field body ''recipientAddress'') (field body ''amount''))"
  from assms post_auth_send_trace [of E body]
  have t: "?t = pre @ RpcSendTransaction c tx ks # post" by auto
  show ?thesis
  proof (cases rule: sendSolTransaction_trace [of E "field body ''senderAddress''"
      "field body ''senderPrivateKey''" "field body ''recipientAddress''" "field body ''amount''"])
    case none
    with t show ?thesis by simp
  next
    case connection
    with t show ?thesis by (auto simp: append_eq_Cons_conv Cons_eq_append_conv)
  next
    case (anchor kp c' tx0 m)
    with t show ?thesis by (auto simp: append_eq_Cons_conv Cons_eq_append_conv)
  next
    case (sent kp c' tx0 bh tx' m)
    with t show ?thesis by (auto simp: append_eq_Cons_conv Cons_eq_append_conv)
  next
    case (waited kp c' tx0 bh tx' sg)
    with t show ?thesis by (auto simp: append_eq_Cons_conv Cons_eq_append_conv)
  qed
qed

theorem anchor_fetched_before_submission_witness:
  "snd (post_auth_send env_ok transfer_body)
     = [NewConnection default_rpc_url (Some ''confirmed''), RpcGetLatestBlockhash confirmed_conn]
       @ RpcSendTransaction confirmed_conn (transfer_of (Fin 1500000000)) [sender_keypair]
       # [RpcConfirmTransaction confirmed_conn signature1 ''confirmed'']
   \<and> RpcGetLatestBlockhash confirmed_conn
       \<in> set [NewConnection default_rpc_url (Some ''confirmed''), RpcGetLatestBlockhash confirmed_conn]
   \<and> (\<exists>bh. rpc_getLatestBlockhash env_ok confirmed_conn = Inr bh
           \<and> recentBlockhash (transfer_of (Fin 1500000000)) = Some bh)"
proof -
  have h: "snd (post_auth_send env_ok transfer_body)
     = [NewConnection default_rpc_url (Some ''confirmed''), RpcGetLatestBlockhash confirmed_conn]
       @ RpcSendTransaction confirmed_conn (transfer_of (Fin 1500000000)) [sender_keypair]
       # [RpcConfirmTransaction confirmed_conn signature1 ''confirmed'']"
    by (simp add: ok_run)
  from anchor_fetched_before_submission [OF h] h show ?thesis by simp
qed

text \<open>
  C10. Two submit calls that pass the missing-field check and agree on everything but
  \<open>senderAddress\<close> get the same response and cause the same events:
  \<open>sendSolTransaction\<close> never reads its \<open>senderAddress\<close> parameter. The source and the
  fee payer of a submitted transaction are the public key of the keypair rebuilt from
  \<open>senderPrivateKey\<close>, which is also its only signer.
\<close>

theorem sender_address_without_influence:
  assumes "truthy a1" and "truthy a2"
  shows "post_auth_send E (body(''senderAddress'' \<mapsto> a1))
           = post_auth_send E (body(''senderAddress'' \<mapsto> a2))
       \<and> sendSolTransaction E a1 k r am = sendSolTransaction E a2 k r am
       \<and> (\<forall>c tx ks. RpcSendTransaction c tx ks \<in> set (snd (sendSolTransaction E a1 k r am)) \<longrightarrow>
            (\<exists>kp. signing_identity E k = Inr kp \<and> ks = [kp]
                 \<and> feePayer tx = Some (publicKey kp)
                 \<and> map fromPubkey (instructions tx) = [publicKey kp]))"
proof (intro conjI allI impI)
  show "post_auth_send E (body(''senderAddress'' \<mapsto> a1))
           = post_auth_send E (body(''senderAddress'' \<mapsto> a2))"
    using assms
    by (simp add: post_auth_send_def field_def Let_def
        sendSolTransaction_ignores_senderAddress [of E a1 _ _ _ a2])
  show "sendSolTransaction E a1 k r am = sendSolTransaction E a2 k r am"
    by (rule sendSolTransaction_ignores_senderAddress)
next
  fix c tx ks
  assume m: "RpcSendTransaction c tx ks \<in> set (snd (sendSolTransaction E a1 k r am))"
  show "\<exists>kp. signing_identity E k = Inr kp \<and> ks = [kp]
                 \<and> feePayer tx = Some (publicKey kp)
                 \<and> map fromPubkey (instructions tx) = [publicKey kp]"
  proof (cases rule: sendSolTransaction_trace [of E a1 k r am])
    case none
    with m show ?thesis by simp
  next
    case connection
    with m show ?thesis by simp
  next
    case (anchor kp c' tx0 m')
    with m show ?thesis by simp
  next
    case (sent kp c' tx0 bh tx' m')
    from build_transfer_Inr [OF sent(1)] sent m show ?thesis by auto
  next
    case (waited kp c' tx0 bh tx' sg)
    from build_transfer_Inr [OF waited(1)] waited m show ?thesis by auto
  qed
qed

theorem sender_address_without_influence_witness:
  "truthy (JStr sender_address) \<and> truthy (JStr recipient_address)
   \<and> post_auth_send env_ok (transfer_body(''senderAddress'' \<mapsto> JStr recipient_address))
       = post_auth_send env_ok transfer_body
   \<and> fst (post_auth_send env_ok transfer_body) = transaction_sent signature1"
proof -
  have b: "transfer_body(''senderAddress'' \<mapsto> JStr sender_address) = transfer_body"
    by (auto simp: transfer_body_def)
  note h = addresses_truthy
  from sender_address_without_influence [OF h(2) h(1), of env_ok transfer_body] b
  have "post_auth_send env_ok (transfer_body(''senderAddress'' \<mapsto> JStr recipient_address))
       = post_auth_send env_ok transfer_body"
    by simp
  with h show ?thesis by (simp add: ok_run del: truthy.simps)
qed




text \<open>
  C6 does not hold of the amount 4.1. The product \<open>amount * 1e9\<close> is taken in binary64 and
  is not rounded to a whole number: for 1.5 it is 1500000000, and the request is answered
  with the signature the node returned; for 4.1, which is the binary64 number
  2308094809027379 / 2^49, it is 8598323199999999 / 2^21, a little less than 4100000000
  and not whole. \<open>SystemProgram.transfer\<close> refuses it, and the request for 4.1 SOL is
  answered with 500 after the connection was constructed: nothing is built or submitted.
\<close>

theorem fractional_lamports_not_rounded:
  "post_auth_send env_ok transfer_body
     = (\<lparr>status = 200,
         payload = Json [(''success'', JBool True), (''signature'', JStr signature1)]\<rparr>,
        [NewConnection default_rpc_url (Some ''confirmed''),
         RpcGetLatestBlockhash confirmed_conn,
         RpcSendTransaction confirmed_conn (transfer_of (Fin 1500000000)) [sender_keypair],
         RpcConfirmTransaction confirmed_conn signature1 ''confirmed''])
   \<and> round_double (41 / 10) = Fin four_point_one
   \<and> js_times_1e9 (Fin four_point_one) = Fin (8598323199999999 / 2097152)
   \<and> (8598323199999999 / 2097152 :: rat) < 4100000000
   \<and> \<lfloor>8598323199999999 / 2097152 :: rat\<rfloor> = 4099999999
   \<and> post_auth_send env_ok (transfer_body(''amount'' \<mapsto> JNum (Fin four_point_one)))
     = (\<lparr>status = 500,
         payload = Json [(''error'', JStr ''Transaction failed''),
                         (''message'',
                          JStr (''Transaction failed: The number ''
                                @ number_to_string (Fin (8598323199999999 / 2097152))
                                @ '' cannot be converted to a BigInt because it is not an integer''))]\<rparr>,
        [NewConnection default_rpc_url (Some ''confirmed'')])"
  using ok_run four_point_one_facts floor_of_product four_point_one_run
  by (simp add: transaction_sent_def transaction_failed_def)

theorem fractional_lamports_not_rounded_witness:
  "truthy (JNum (Fin four_point_one))
   \<and> snd (post_auth_send env_ok (transfer_body(''amount'' \<mapsto> JNum (Fin four_point_one))))
       = [NewConnection default_rpc_url (Some ''confirmed'')]
   \<and> status (fst (post_auth_send env_ok (transfer_body(''amount'' \<mapsto> JNum (Fin four_point_one)))))
       = 500"
  using fractional_lamports_not_rounded four_point_one_truthy
  by (simp del: truthy.simps)

text \<open>
  C8, as claimed, fails. With \<open>SOLANA_COMMITMENT\<close> and \<open>COMMITMENT\<close> set to \<open>finalized\<close> in
  the process environment (and the RPC endpoint set too, which is honoured), the connection
  is still opened at \<open>confirmed\<close> and the confirmation still waits for \<open>confirmed\<close>.
\<close>

theorem commitment_env_counterexample:
  "snd (post_auth_send env_finalized transfer_body)
     = [NewConnection ''http://localhost:8899'' (Some ''confirmed''),
        RpcGetLatestBlockhash \<lparr>endpoint = ''http://localhost:8899'', commitment = Some ''confirmed''\<rparr>,
        RpcSendTransaction \<lparr>endpoint = ''http://localhost:8899'', commitment = Some ''confirmed''\<rparr>
           (transfer_of (Fin 1500000000)) [sender_keypair],
        RpcConfirmTransaction \<lparr>endpoint = ''http://localhost:8899'', commitment = Some ''confirmed''\<rparr>
           signature1 ''confirmed'']"
  by (rule finalized_run)

text \<open>
  C8, amended. The commitment level is the literal \<open>confirmed\<close>, whatever the process
  environment holds: every connection of the transfer path is constructed with it, on the
  endpoint \<open>SOLANA_RPC_URL\<close> (or the mainnet default), and every confirmation is awaited
  at it.
\<close>

theorem commitment_always_confirmed:
  "(\<forall>u l. NewConnection u l \<in> set (snd (post_auth_send E body)) \<longrightarrow>
       u = rpc_url E \<and> l = Some ''confirmed'')
   \<and> (\<forall>c. RpcGetLatestBlockhash c \<in> set (snd (post_auth_send E body)) \<longrightarrow>
       c = \<lparr>endpoint = rpc_url E, commitment = Some ''confirmed''\<rparr>)
   \<and> (\<forall>c tx ks. RpcSendTransaction c tx ks \<in> set (snd (post_auth_send E body)) \<longrightarrow>
       c = \<lparr>endpoint = rpc_url E, commitment = Some ''confirmed''\<rparr>)
   \<and> (\<forall>c sg l. RpcConfirmTransaction c sg l \<in> set (snd (post_auth_send E body)) \<longrightarrow>
       c = \<lparr>endpoint = rpc_url E, commitment = Some ''confirmed''\<rparr> \<and> l = ''confirmed'')"
proof -
  let ?s = "sendSolTransaction E (field body ''senderAddress'') (field body ''senderPrivateKey'')
             (field body ''recipientAddress'') (field body ''amount'')"
  have P: "(\<forall>u l. NewConnection u l \<in> set (snd ?s) \<longrightarrow> u = rpc_url E \<and> l = Some ''confirmed'')
   \<and> (\<forall>c. RpcGetLatestBlockhash c \<in> set (snd ?s) \<longrightarrow>
       c = \<lparr>endpoint = rpc_url E, commitment = Some ''confirmed''\<rparr>)
   \<and> (\<forall>c tx ks. RpcSendTransaction c tx ks \<in> set (snd ?s) \<longrightarrow>
       c = \<lparr>endpoint = rpc_url E, commitment = Some ''confirmed''\<rparr>)
   \<and> (\<forall>c sg l. RpcConfirmTransaction c sg l \<in> set (snd ?s) \<longrightarrow>
       c = \<lparr>endpoint = rpc_url E, commitment = Some ''confirmed''\<rparr> \<and> l = ''confirmed'')"
  proof (cases rule: sendSolTransaction_trace [of E "field body ''senderAddress''"
      "field body ''senderPrivateKey''" "field body ''recipientAddress''" "field body ''amount''"])
    case none
    then show ?thesis by simp
  next
    case connection
    then show ?thesis by simp
  next
    case (anchor kp c' tx0 m')
    from build_transfer_Inr [OF anchor(1)] anchor(3) show ?thesis by simp
  next
    case (sent kp c' tx0 bh tx' m')
    from build_transfer_Inr [OF sent(1)] sent(5) show ?thesis by simp
  next
    case (waited kp c' tx0 bh tx' sg')
    from build_transfer_Inr [OF waited(1)] waited(5) show ?thesis by simp
  qed
  from post_auth_send_trace [of E body] show ?thesis
  proof
    assume "snd (post_auth_send E body) = []"
    then show ?thesis by simp
  next
    assume eq: "snd (post_auth_send E body) = snd ?s"
    show ?thesis unfolding eq by (rule P)
  qed
qed

theorem commitment_always_confirmed_witness:
  "RpcConfirmTransaction \<lparr>endpoint = ''http://localhost:8899'', commitment = Some ''confirmed''\<rparr>
       signature1 ''confirmed'' \<in> set (snd (post_auth_send env_finalized transfer_body))
   \<and> process_env env_finalized ''SOLANA_COMMITMENT'' = Some ''finalized''
   \<and> \<lparr>endpoint = ''http://localhost:8899'', commitment = Some ''confirmed''\<rparr>
       = \<lparr>endpoint = rpc_url env_finalized, commitment = Some ''confirmed''\<rparr>"
proof -
  have m: "RpcConfirmTransaction \<lparr>endpoint = ''http://localhost:8899'', commitment = Some ''confirmed''\<rparr>
       signature1 ''confirmed'' \<in> set (snd (post_auth_send env_finalized transfer_body))"
    by (simp add: finalized_run)
  have p: "process_env env_finalized ''SOLANA_COMMITMENT'' = Some ''finalized''"
    by (simp add: env_finalized_def)
  from commitment_always_confirmed [of env_finalized transfer_body] m
  have "\<lparr>endpoint = ''http://localhost:8899'', commitment = Some ''confirmed''\<rparr>
       = \<lparr>endpoint = rpc_url env_finalized, commitment = Some ''confirmed''\<rparr>"
    by blast
  with m p show ?thesis by blast
qed




text \<open>
  C4, as claimed, fails. A node that rejects the submission and a confirmation that is not
  observed, each reported by the library with the same message, are answered with one and
  the same response, although the second request did wait for the confirmation.
\<close>

theorem rejection_timeout_counterexample:
  "post_auth_send env_rejected transfer_body
     = (\<lparr>status = 500,
         payload = Json [(''error'', JStr ''Transaction failed''),
                         (''message'', JStr ''Transaction failed: failed'')]\<rparr>,
        [NewConnection default_rpc_url (Some ''confirmed''),
         RpcGetLatestBlockhash confirmed_conn,
         RpcSendTransaction confirmed_conn (transfer_of (Fin 1500000000)) [sender_keypair]])
   \<and> post_auth_send env_timeout transfer_body
     = (\<lparr>status = 500,
         payload = Json [(''error'', JStr ''Transaction failed''),
                         (''message'', JStr ''Transaction failed: failed'')]\<rparr>,
        [NewConnection default_rpc_url (Some ''confirmed''),
         RpcGetLatestBlockhash confirmed_conn,
         RpcSendTransaction confirmed_conn (transfer_of (Fin 1500000000)) [sender_keypair],
         RpcConfirmTransaction confirmed_conn signature1 ''confirmed''])"
  using rejected_run timeout_run by simp

text \<open>
  C4, amended. Both a rejected submission and a confirmation that fails are answered with
  status 500, \<open>error: 'Transaction failed'\<close> and \<open>message: 'Transaction failed: '\<close> followed by
  the message of the error the library threw. The response has no error kind: the two
  failures differ in it only as far as the library's messages differ.
\<close>

theorem rejection_and_timeout_one_shape:
  "(\<forall>pre c tx ks. snd (post_auth_send E body) = pre @ [RpcSendTransaction c tx ks] \<longrightarrow>
      (\<exists>m. rpc_sendTransaction E c tx ks = Inl m
         \<and> fst (post_auth_send E body) =
             \<lparr>status = 500,
              payload = Json [(''error'', JStr ''Transaction failed''),
                              (''message'', JStr (''Transaction failed: '' @ m))]\<rparr>))
   \<and> (\<forall>pre c sg l m. snd (post_auth_send E body) = pre @ [RpcConfirmTransaction c sg l]
         \<and> rpc_confirmTransaction E c sg l = Inl m \<longrightarrow>
       fst (post_auth_send E body) =
             \<lparr>status = 500,
              payload = Json [(''error'', JStr ''Transaction failed''),
                              (''message'', JStr (''Transaction failed: '' @ m))]\<rparr>)"
proof (cases rule: post_auth_send_cases [of E body])
  case refused
  then show ?thesis by simp
next
  case (ran res t)
  from ran(5) have tt: "t = snd (sendSolTransaction E (field body ''senderAddress'')
        (field body ''senderPrivateKey'') (field body ''recipientAddress'') (field body ''amount''))"
      and rr: "res = fst (sendSolTransaction E (field body ''senderAddress'')
        (field body ''senderPrivateKey'') (field body ''recipientAddress'') (field body ''amount''))"
    by simp_all
  from ran(6) have p: "snd (post_auth_send E body) = t"
    "fst (post_auth_send E body)
       = (case res of Inr sg \<Rightarrow> transaction_sent sg | Inl m \<Rightarrow> transaction_failed m)"
    by simp_all
  show ?thesis
  proof (cases rule: sendSolTransaction_trace [of E "field body ''senderAddress''"
        "field body ''senderPrivateKey''" "field body ''recipientAddress''" "field body ''amount''"])
    case none
    with tt show ?thesis unfolding p by simp
  next
    case connection
    with tt show ?thesis unfolding p by simp
  next
    case (anchor kp c' tx0 m')
    with tt show ?thesis unfolding p by simp
  next
    case (sent kp c' tx0 bh tx' m')
    with tt rr show ?thesis unfolding p
      by (auto simp: transaction_failed_def)
  next
    case (waited kp c' tx0 bh tx' sg')
    with tt rr show ?thesis unfolding p
      by (auto simp: transaction_failed_def)
  qed
qed

theorem rejection_and_timeout_one_shape_witness:
  "rpc_sendTransaction env_rejected confirmed_conn (transfer_of (Fin 1500000000)) [sender_keypair]
     = Inl ''failed''
   \<and> rpc_confirmTransaction env_timeout confirmed_conn signature1 ''confirmed'' = Inl ''failed''
   \<and> fst (post_auth_send env_rejected transfer_body) = transaction_failed ''Transaction failed: failed''
   \<and> fst (post_auth_send env_timeout transfer_body) = transaction_failed ''Transaction failed: failed''"
proof -
  let ?tx = "transfer_of (Fin 1500000000)"
  let ?ks = "[sender_keypair]"
  have a: "snd (post_auth_send env_rejected transfer_body)
     = [NewConnection default_rpc_url (Some ''confirmed''), RpcGetLatestBlockhash confirmed_conn]
       @ [RpcSendTransaction confirmed_conn ?tx ?ks]"
    by (simp add: rejected_run)
  have b: "snd (post_auth_send env_timeout transfer_body)
     = [NewConnection default_rpc_url (Some ''confirmed''), RpcGetLatestBlockhash confirmed_conn,
        RpcSendTransaction confirmed_conn ?tx ?ks]
       @ [RpcConfirmTransaction confirmed_conn signature1 ''confirmed'']"
    by (simp add: timeout_run)
  have s: "rpc_sendTransaction env_rejected confirmed_conn ?tx ?ks = Inl ''failed''"
    by (simp add: env_rejected_def env_ok_def)
  have c: "rpc_confirmTransaction env_timeout confirmed_conn signature1 ''confirmed'' = Inl ''failed''"
    by (simp add: env_timeout_def env_ok_def)
  from rejection_and_timeout_one_shape [of env_rejected transfer_body] a
  obtain m where "rpc_sendTransaction env_rejected confirmed_conn ?tx ?ks = Inl m"
    "fst (post_auth_send env_rejected transfer_body) =
             \<lparr>status = 500,
              payload = Json [(''error'', JStr ''Transaction failed''),
                              (''message'', JStr (''Transaction failed: '' @ m))]\<rparr>"
    by blast
  with s have 1: "fst (post_auth_send env_rejected transfer_body)
      = transaction_failed ''Transaction failed: failed''"
    by (simp add: transaction_failed_def)
  from rejection_and_timeout_one_shape [of env_timeout transfer_body] b c
  have "fst (post_auth_send env_timeout transfer_body) =
             \<lparr>status = 500,
              payload = Json [(''error'', JStr ''Transaction failed''),
                              (''message'', JStr (''Transaction failed: '' @ ''failed''))]\<rparr>"
    by blast
  then have 2: "fst (post_auth_send env_timeout transfer_body)
      = transaction_failed ''Transaction failed: failed''"
    by (simp add: transaction_failed_def)
  from s c 1 2 show ?thesis by blast
qed

section \<open>The HTTP surface\<close>

text \<open>
  C1 does not hold of \<open>GET /api/check-balance/:publicKey\<close>. A request without any header
  or cookie gets the balance: the route is registered on the application with the balance
  handler alone, so \<open>getBalance\<close> constructs a connection and queries the node, and
  \<open>authenticateToken\<close> is never called, whatever the controllers do. The sibling routes
  \<open>POST /auth/check-balance\<close> and \<open>GET /auth/balance/:address\<close> put \<open>authenticateToken\<close>
  first.
\<close>

theorem unauthenticated_balance_query_reaches_rpc:
  "app env_ok C balance_request
     = (\<lparr>status = 200, payload = Json [(''balance'', JNum (Fin 2))]\<rparr>,
        [NewConnection default_rpc_url None,
         RpcGetBalance \<lparr>endpoint = default_rpc_url, commitment = None\<rparr> sender_address])"
  by (rule balance_run)

text \<open>
  The transfer route of \<open>server.js\<close> itself, \<open>POST /auth/send\<close>, lies behind the router
  mounted on \<open>/auth\<close>, whose own \<open>/send\<close> route starts with \<open>authenticateToken\<close>: no
  request gets to it unless that middleware was called first and passed it on.
\<close>

lemma run_chain_starts_with_call:
  "\<exists>t. snd (run_chain E C pat (Controller c # hs) req) = Call c # t"
  by (auto split: prod.splits outcome.splits)

lemma run_routes_match:
  assumes "method_matches m (req_method req)" and "matches pat (segments (req_path req))"
  shows "\<exists>t. snd (run_routes E C ((m, pat, hs) # rs) req) = snd (run_chain E C pat hs req) @ t"
  using assms by (auto split: prod.splits outcome.splits)

lemma run_routes_skip:
  assumes "\<not> (method_matches m (req_method req) \<and> matches pat (segments (req_path req)))"
  shows "run_routes E C ((m, pat, hs) # rs) req = run_routes E C rs req"
  using assms by auto

lemma app_trace_of_router:
  assumes "req_method req \<noteq> ''OPTIONS''" and "req_path req = ''auth'' # ps"
  shows "\<exists>t. snd (app E C req) = snd (run_routes E C auth_routes (req\<lparr>req_path := ps\<rparr>)) @ t"
  using assms by (auto simp: app_def lower_def split: prod.splits outcome.splits)

lemma app_send_behind_authenticateToken:
  assumes "req_method req = ''POST''" and "req_path req = [''auth'', ''send'']"
  shows "\<exists>t. snd (app E C req) = Call authenticateToken # t"
proof -
  let ?r = "req\<lparr>req_path := [''send'']\<rparr>"
  have m: "method_matches ''POST'' (req_method ?r)" "matches [Lit ''send''] (segments (req_path ?r))"
    using assms(1) by (simp_all add: method_matches_def segments_def)
  have "run_routes E C auth_routes ?r
      = run_routes E C
         ((''POST'', [Lit ''send''], [Controller authenticateToken, Controller sendTransaction])
          # drop 6 auth_routes) ?r"
    using assms(1) unfolding auth_routes_def
    by (simp add: run_routes_skip method_matches_def segments_def lower_def del: run_routes.simps)
  with run_routes_match [OF m, of E C "[Controller authenticateToken, Controller sendTransaction]"
      "drop 6 auth_routes"]
    run_chain_starts_with_call [of E C "[Lit ''send'']" authenticateToken "[Controller sendTransaction]" ?r]
  obtain t where "snd (run_routes E C auth_routes ?r) = Call authenticateToken # t"
    by auto
  with app_trace_of_router [of req "[''send'']" E C] assms show ?thesis by auto
qed

end
